theory Spec2Isabelle
  imports Complex_Main
begin

section \<open>Python values and exceptions\<close>

text \<open>
  The module \<open>py3status/modules/mellowplayer.py\<close> polls the MellowPlayer MPRIS object
  over D-Bus and renders a status text with a colour. Its values are dynamically typed:
  what D-Bus hands back for \<open>Metadata\<close> and \<open>PlaybackStatus\<close> is modelled by
  \<open>pyval\<close>; every exception the code can meet is a value of \<open>exc\<close>, and a computation
  that may raise has the type \<open>exc + 'a\<close> with \<open>Inl\<close> for the exception.

  \<open>pyval\<close> has a constructor for each kind of value that the D-Bus binding delivers:
  \<open>None\<close> (what \<open>dict.get\<close> gives for a missing key), strings (\<open>dbus.String\<close>,
  \<open>dbus.ObjectPath\<close>), byte strings (\<open>dbus.ByteArray\<close>), booleans, integers of any
  width, floats (\<open>dbus.Double\<close>: a finite one by its value, the infinities and
  not-a-number apart), lists (\<open>dbus.Array\<close>), tuples (\<open>dbus.Struct\<close>) and
  dictionaries keyed by strings, as the MPRIS metadata is (\<open>a{sv}\<close>), in the order of
  their entries.

  Text is a list of characters with code points below 256.
\<close>

datatype exc =
  DBusException | TypeError | ValueError | IndexError | KeyError | AttributeError
  | OverflowError | re_error | OtherError

datatype pyval =
  PNone
  | PStr string
  | PBytes "char list"
  | PBool bool
  | PInt int
  | PFloat real
  | PFloatInf
  | PFloatNaN
  | PList "pyval list"
  | PTuple "pyval list"
  | PDict "(string \<times> pyval) list"

definition bind_exc :: "exc + 'a \<Rightarrow> ('a \<Rightarrow> exc + 'b) \<Rightarrow> exc + 'b" where
  "bind_exc m f = (case m of Inl e \<Rightarrow> Inl e | Inr x \<Rightarrow> f x)"

text \<open>\<open>d.get(key)\<close>: only a dictionary has the method; a missing key gives \<open>None\<close>.\<close>

definition dict_get :: "(string \<times> pyval) list \<Rightarrow> string \<Rightarrow> pyval" where
  "dict_get d k = (case map_of d k of None \<Rightarrow> PNone | Some v \<Rightarrow> v)"

fun py_get :: "pyval \<Rightarrow> string \<Rightarrow> exc + pyval" where
  "py_get (PDict d) k = Inr (dict_get d k)"
| "py_get v k = Inl AttributeError"

text \<open>
  \<open>v[0]\<close>: the first element of a list or a tuple, the first character of a string,
  the first byte of a byte string as an integer. An empty sequence raises IndexError, a
  dictionary keyed by strings has no entry \<open>0\<close> (KeyError), and \<open>None\<close> and the
  numbers cannot be subscripted (TypeError).
\<close>

fun py_item0 :: "pyval \<Rightarrow> exc + pyval" where
  "py_item0 (PList []) = Inl IndexError"
| "py_item0 (PList (v # vs)) = Inr v"
| "py_item0 (PTuple []) = Inl IndexError"
| "py_item0 (PTuple (v # vs)) = Inr v"
| "py_item0 (PStr []) = Inl IndexError"
| "py_item0 (PStr (c # cs)) = Inr (PStr [c])"
| "py_item0 (PBytes []) = Inl IndexError"
| "py_item0 (PBytes (c # cs)) = Inr (PInt (of_char c))"
| "py_item0 (PDict d) = Inl KeyError"
| "py_item0 PNone = Inl TypeError"
| "py_item0 (PBool b) = Inl TypeError"
| "py_item0 (PInt n) = Inl TypeError"
| "py_item0 (PFloat x) = Inl TypeError"
| "py_item0 PFloatInf = Inl TypeError"
| "py_item0 PFloatNaN = Inl TypeError"

text \<open>\<open>a or b\<close> on colour settings: \<open>None\<close> and the empty string are false.\<close>

definition py_or :: "string option \<Rightarrow> string option \<Rightarrow> string option" where
  "py_or a b = (case a of None \<Rightarrow> b | Some c \<Rightarrow> if c = [] then b else a)"

section \<open>Strings\<close>

text \<open>\<open>str.isspace\<close> on the code points below 256, and \<open>str.strip()\<close>.\<close>

definition isspace :: "char \<Rightarrow> bool" where
  "isspace c = (let n = (of_char c :: nat) in
     (9 \<le> n \<and> n \<le> 13) \<or> (28 \<le> n \<and> n \<le> 32) \<or> n = 133 \<or> n = 160)"

definition strip :: "string \<Rightarrow> string" where
  "strip s = rev (dropWhile isspace (rev (dropWhile isspace s)))"

text \<open>\<open>sep.join(words)\<close>.\<close>

fun join :: "string \<Rightarrow> string list \<Rightarrow> string" where
  "join sep [] = []"
| "join sep [w] = w"
| "join sep (w # v # ws) = w @ sep @ join sep (v # ws)"

text \<open>
  \<open>s.replace(old, new)\<close> for a non-empty \<open>old\<close>: every occurrence, left to right,
  without overlaps.
\<close>

function replace :: "string \<Rightarrow> string \<Rightarrow> string \<Rightarrow> string" where
  "replace old new [] = []"
| "replace old new (c # cs) =
     (if old \<noteq> [] \<and> take (length old) (c # cs) = old
      then new @ replace old new (drop (length old) (c # cs))
      else c # replace old new cs)"
  by pat_completeness auto
termination
  by (relation "measure (\<lambda>(old, new, s). length s)") auto

text \<open>Decimal numerals: \<open>%d\<close>, and \<open>%0wd\<close> for a value that is not negative.\<close>

fun str_nat :: "nat \<Rightarrow> string" where
  "str_nat n =
     (if n < 10 then [char_of (48 + n)]
      else str_nat (n div 10) @ [char_of (48 + n mod 10)])"

declare str_nat.simps [simp del]

definition fmt_d :: "int \<Rightarrow> string" where
  "fmt_d n = (if n < 0 then ''-'' @ str_nat (nat (- n)) else str_nat (nat n))"

definition fmt_0d :: "nat \<Rightarrow> int \<Rightarrow> string" where
  "fmt_0d w n = (let d = fmt_d n in replicate (w - length d) (CHR ''0'') @ d)"

section \<open>datetime.timedelta\<close>

text \<open>
  \<open>timedelta(microseconds=n)\<close> normalises a whole number of microseconds to days,
  seconds in \<open>[0, 86400)\<close> and microseconds in \<open>[0, 1000000)\<close>, with floor division,
  and raises OverflowError when the days exceed 999999999 in magnitude.
\<close>

definition timedelta_us :: "int \<Rightarrow> exc + (int \<times> int \<times> int)" where
  "timedelta_us n =
     (let us = n mod 1000000; total = n div 1000000;
          seconds = total mod 86400; days = total div 86400
      in if \<bar>days\<bar> > 999999999 then Inl OverflowError else Inr (days, seconds, us))"

text \<open>
  A float is rounded to the nearest whole microsecond, a tie to the even neighbour.
\<close>

definition round_half_even :: "real \<Rightarrow> int" where
  "round_half_even x =
     (let f = \<lfloor>x\<rfloor>; d = x - of_int f
      in if d < 1 / 2 then f else if 1 / 2 < d then f + 1
         else if even f then f else f + 1)"

text \<open>
  The argument may be an integer, a boolean (which is an integer in Python) or a float.
  An infinity raises OverflowError, not-a-number ValueError, and a value of any other
  type TypeError.
\<close>

fun timedelta :: "pyval \<Rightarrow> exc + (int \<times> int \<times> int)" where
  "timedelta (PInt n) = timedelta_us n"
| "timedelta (PBool b) = timedelta_us (if b then 1 else 0)"
| "timedelta (PFloat x) = timedelta_us (round_half_even x)"
| "timedelta PFloatInf = Inl OverflowError"
| "timedelta PFloatNaN = Inl ValueError"
| "timedelta v = Inl TypeError"

text \<open>
  \<open>str(timedelta)\<close>: \<open>H:MM:SS\<close>, with the days in front when there are any, and the
  six digits of the microseconds behind a point only when they are not zero.
\<close>

definition str_timedelta :: "int \<times> int \<times> int \<Rightarrow> string" where
  "str_timedelta t = (case t of (days, seconds, us) \<Rightarrow>
     (let mm = seconds div 60; ss = seconds mod 60;
          hh = mm div 60; mm = mm mod 60;
          s = fmt_d hh @ '':'' @ fmt_0d 2 mm @ '':'' @ fmt_0d 2 ss;
          s = (if days \<noteq> 0
               then fmt_d days @ '' day'' @ (if \<bar>days\<bar> \<noteq> 1 then ''s'' else []) @ '', '' @ s
               else s);
          s = (if us \<noteq> 0 then s @ ''.'' @ fmt_0d 6 us else s)
      in s))"

text \<open>The slice \<open>s[:-7]\<close>: all but the last seven characters, nothing when there are fewer.\<close>

definition slice_to_minus7 :: "string \<Rightarrow> string" where
  "slice_to_minus7 s = take (length s - 7) s"

section \<open>Regular expressions of the \<open>re\<close> module\<close>

text \<open>
  The fragment of Python's pattern language that the two expressions of
  \<open>post_config_hook\<close> use, after the configured words have been pasted in: literals,
  escaped punctuation, the dot, character sets of single characters, capturing groups,
  alternation and the quantifiers \<open>*\<close>, \<open>+\<close>, \<open>?\<close> with their lazy forms.
  The flag \<open>re.IGNORECASE\<close>, which \<open>_compile_re\<close> always passes, is built into
  the matcher.
\<close>

datatype re =
  Literal char
  | Any
  | In bool "char list"
  | Star bool re
  | Opt bool re
  | Group re
  | Seq "re list"
  | Branch "re list"

text \<open>Case folding under IGNORECASE on the code points below 256.\<close>

definition lower :: "char \<Rightarrow> char" where
  "lower c = (let n = (of_char c :: nat) in
     if (65 \<le> n \<and> n \<le> 90) \<or> (192 \<le> n \<and> n \<le> 222 \<and> n \<noteq> 215)
     then char_of (n + 32) else c)"

definition in_set :: "bool \<Rightarrow> char list \<Rightarrow> char \<Rightarrow> bool" where
  "in_set negate cs c = (negate \<noteq> (lower c \<in> lower ` set cs))"

text \<open>
  \<open>ms r s\<close> lists what is left of \<open>s\<close> after each way of matching \<open>r\<close> at its
  start, in the order in which the backtracking matcher tries them: the alternatives of
  a branch from left to right, a greedy repetition longest first, a lazy one shortest
  first. When the body of a repetition has matched without consuming anything, the
  repetition ends there and the rest of the pattern is tried at that point.
\<close>

function ms :: "re \<Rightarrow> string \<Rightarrow> string list" where
  "ms (Literal c) s =
     (case s of [] \<Rightarrow> [] | x # xs \<Rightarrow> if lower x = lower c then [xs] else [])"
| "ms Any s =
     (case s of [] \<Rightarrow> [] | x # xs \<Rightarrow> if x \<noteq> CHR 0x0A then [xs] else [])"
| "ms (In negate cs) s =
     (case s of [] \<Rightarrow> [] | x # xs \<Rightarrow> if in_set negate cs x then [xs] else [])"
| "ms (Star greedy r) s =
     (let more = concat (map (\<lambda>s'. if length s' < length s
                                    then ms (Star greedy r) s' else [s'])
                   (ms r s))
      in if greedy then more @ [s] else s # more)"
| "ms (Opt greedy r) s = (if greedy then ms r s @ [s] else s # ms r s)"
| "ms (Group r) s = ms r s"
| "ms (Seq []) s = [s]"
| "ms (Seq (r # rs)) s = concat (map (ms (Seq rs)) (ms r s))"
| "ms (Branch []) s = []"
| "ms (Branch (r # rs)) s = ms r s @ ms (Branch rs) s"
  by pat_completeness auto
termination
  by (relation "measures [\<lambda>(r, s). size r, \<lambda>(r, s). length s]") auto

declare ms.simps(4) [simp del]

text \<open>
  \<open>re.sub(pattern, "", s)\<close>: scanning from the left, the first match at the earliest
  position is deleted and the scan goes on behind it. With the empty replacement a match
  of nothing changes nothing, so at each position the first match that consumes a
  character is the one that counts.
\<close>

function sub_empty :: "re \<Rightarrow> string \<Rightarrow> string" where
  "sub_empty r [] = []"
| "sub_empty r (c # cs) =
     (case find (\<lambda>s'. length s' < Suc (length cs)) (ms r (c # cs)) of
        Some s' \<Rightarrow> sub_empty r s'
      | None \<Rightarrow> c # sub_empty r cs)"
  by pat_completeness auto
termination
  by (relation "measure (\<lambda>(r, s). length s)") (auto simp: find_Some_iff)

declare sub_empty.simps(2) [simp del]

section \<open>Compiling a pattern\<close>

text \<open>
  \<open>re.compile\<close> on the text of an expression, read in one pass from left to right.
  The state is the mode (plain text, behind a backslash, inside a character set), the
  stack of the groups that are open, each with the branches and the items read before
  it, and the branches and the items of the innermost group, latest first.

  The result is \<open>Some (Inr r)\<close> for a pattern, \<open>Some (Inl re_error)\<close> where
  \<open>re.compile\<close> raises \<open>re.error\<close>, and \<open>None\<close> for an expression outside the
  fragment (anchors, counted repetition, group extensions, ranges in a set, escapes of
  letters and digits, possessive quantifiers).
\<close>

datatype item = Atom re | Rep char bool re

fun build :: "item \<Rightarrow> re" where
  "build (Atom r) = r"
| "build (Rep q greedy r) =
     (if q = CHR ''*'' then Star greedy r
      else if q = CHR ''+'' then Seq [r, Star greedy r]
      else Opt greedy r)"

definition close :: "re list \<Rightarrow> item list \<Rightarrow> re" where
  "close brs cur =
     (let sq = Seq (rev (map build cur))
      in if brs = [] then sq else Branch (rev (sq # brs)))"

datatype mode = Norm | Esc | SetOpen | SetIn bool "char list" | SetEsc bool "char list"

definition alnum :: "char \<Rightarrow> bool" where
  "alnum c = (let n = (of_char c :: nat) in
     (48 \<le> n \<and> n \<le> 57) \<or> (65 \<le> n \<and> n \<le> 90) \<or> (97 \<le> n \<and> n \<le> 122))"

text \<open>
  One character inside a set: \<open>]\<close> ends a set that has an item, a backslash escapes
  the next character, anything else is an item.
\<close>

definition set_next :: "bool \<Rightarrow> char list \<Rightarrow> char \<Rightarrow> (mode + re) option" where
  "set_next negate items c =
     (if c = CHR '']'' \<and> items \<noteq> [] then Some (Inr (In negate (rev items)))
      else if c = CHR 0x5C then Some (Inl (SetEsc negate items))
      else if c = CHR ''-'' then None
      else Some (Inl (SetIn negate (c # items))))"

fun parse ::
  "mode \<Rightarrow> (re list \<times> item list) list \<Rightarrow> re list \<Rightarrow> item list \<Rightarrow> string
    \<Rightarrow> (exc + re) option" where
  "parse m stk brs cur [] =
     (case m of
        Norm \<Rightarrow> (case stk of [] \<Rightarrow> Some (Inr (close brs cur)) | _ # _ \<Rightarrow> Some (Inl re_error))
      | _ \<Rightarrow> Some (Inl re_error))"
| "parse Norm stk brs cur (c # cs) =
     (if c = CHR 0x5C then parse Esc stk brs cur cs
      else if c = CHR ''['' then parse SetOpen stk brs cur cs
      else if c = CHR ''('' then
        (if take 1 cs = ''?'' then None else parse Norm ((brs, cur) # stk) [] [] cs)
      else if c = CHR '')'' then
        (case stk of
           [] \<Rightarrow> Some (Inl re_error)
         | (brs', cur') # stk' \<Rightarrow> parse Norm stk' brs' (Atom (Group (close brs cur)) # cur') cs)
      else if c = CHR ''|'' then parse Norm stk (Seq (rev (map build cur)) # brs) [] cs
      else if c = CHR ''.'' then parse Norm stk brs (Atom Any # cur) cs
      else if c = CHR ''*'' \<or> c = CHR ''+'' \<or> c = CHR ''?'' then
        (case cur of
           [] \<Rightarrow> Some (Inl re_error)
         | Atom r # cur' \<Rightarrow> parse Norm stk brs (Rep c True r # cur') cs
         | Rep q greedy r # cur' \<Rightarrow>
             if greedy \<and> c = CHR ''?'' then parse Norm stk brs (Rep q False r # cur') cs
             else if greedy \<and> c = CHR ''+'' then None
             else Some (Inl re_error))
      else if c = CHR ''{'' \<or> c = CHR ''^'' \<or> c = CHR ''$'' then None
      else parse Norm stk brs (Atom (Literal c) # cur) cs)"
| "parse Esc stk brs cur (c # cs) =
     (if alnum c then None else parse Norm stk brs (Atom (Literal c) # cur) cs)"
| "parse SetOpen stk brs cur (c # cs) =
     (if c = CHR ''^'' then parse (SetIn True []) stk brs cur cs
      else (case set_next False [] c of
              None \<Rightarrow> None
            | Some (Inl m) \<Rightarrow> parse m stk brs cur cs
            | Some (Inr r) \<Rightarrow> parse Norm stk brs (Atom r # cur) cs))"
| "parse (SetIn negate items) stk brs cur (c # cs) =
     (case set_next negate items c of
        None \<Rightarrow> None
      | Some (Inl m) \<Rightarrow> parse m stk brs cur cs
      | Some (Inr r) \<Rightarrow> parse Norm stk brs (Atom r # cur) cs)"
| "parse (SetEsc negate items) stk brs cur (c # cs) =
     (if alnum c then None else parse (SetIn negate (c # items)) stk brs cur cs)"

definition re_compile :: "string \<Rightarrow> (exc + re) option" where
  "re_compile expression = parse Norm [] [] [] expression"

section \<open>The module\<close>

text \<open>The configuration parameters of the class, with their defaults.\<close>

record config =
  format :: string
  format_down :: string
  format_stopped :: string
  sanitize_titles :: bool
  sanitize_words :: "string list"

definition default_config :: config where
  "default_config = \<lparr>
     format = ''{artist} : {title}'',
     format_down = ''MellowPlayer not running'',
     format_stopped = ''MellowPlayer stopped'',
     sanitize_titles = True,
     sanitize_words = [''bonus'', ''demo'', ''edit'', ''explicit'', ''extended'', ''feat'',
       ''mono'', ''remaster'', ''stereo'', ''version''] \<rparr>"

text \<open>The two patterns that \<open>post_config_hook\<close> stores on the object.\<close>

record patterns =
  after_delimiter :: re
  inside_brackets :: re

text \<open>
  The expressions of \<open>post_config_hook\<close>, character for character (\<open>CHR 0x5C\<close> is the
  backslash):
  \<^verbatim>\<open>([\-,;/])([^\-,;/])*(META_WORDS_HERE).*\<close> and
  \<^verbatim>\<open>([\(\[][^)\]]*?(META_WORDS_HERE)[^)\]]*?[\)\]])\<close>.
\<close>

definition after_delimiter_expr :: string where
  "after_delimiter_expr =
     ''(['' @ [CHR 0x5C] @ ''-,;/])([^'' @ [CHR 0x5C] @ ''-,;/])*(META_WORDS_HERE).*''"

definition inside_brackets_expr :: string where
  "inside_brackets_expr =
     ''(['' @ [CHR 0x5C] @ ''('' @ [CHR 0x5C] @ ''[][^)'' @ [CHR 0x5C]
     @ '']]*?(META_WORDS_HERE)[^)'' @ [CHR 0x5C] @ '']]*?['' @ [CHR 0x5C] @ '')''
     @ [CHR 0x5C] @ '']])''"

definition compile_re :: "config \<Rightarrow> string \<Rightarrow> (exc + re) option" where
  "compile_re self expression =
     (let meta_words = join ''|'' (sanitize_words self);
          expression = replace ''META_WORDS_HERE'' meta_words expression
      in re_compile expression)"

definition post_config_hook :: "config \<Rightarrow> (exc + patterns) option" where
  "post_config_hook self =
     (case compile_re self after_delimiter_expr of
        None \<Rightarrow> None
      | Some (Inl e) \<Rightarrow> Some (Inl e)
      | Some (Inr ad) \<Rightarrow>
          (case compile_re self inside_brackets_expr of
             None \<Rightarrow> None
           | Some (Inl e) \<Rightarrow> Some (Inl e)
           | Some (Inr ib) \<Rightarrow> Some (Inr \<lparr>after_delimiter = ad, inside_brackets = ib\<rparr>)))"

text \<open>\<open>_sanitize_title\<close> on a string.\<close>

definition sanitize_title :: "patterns \<Rightarrow> string \<Rightarrow> string" where
  "sanitize_title self title =
     (let title = sub_empty (inside_brackets self) title;
          title = sub_empty (after_delimiter self) title
      in strip title)"

text \<open>
  \<open>_sanitize_title\<close> on whatever the metadata holds: \<open>re.sub\<close> raises TypeError on a
  value that is not a string, also on a byte string, because the patterns are compiled
  from text.
\<close>

definition sanitize_value :: "patterns \<Rightarrow> pyval \<Rightarrow> exc + pyval" where
  "sanitize_value self v =
     (case v of PStr title \<Rightarrow> Inr (PStr (sanitize_title self title)) | _ \<Rightarrow> Inl TypeError)"

text \<open>
  The collaborators of a poll. \<open>py3\<close> is the helper object of the host: its colour
  settings (\<open>None\<close> when unset) and its \<open>safe_format\<close>, which is not part of the module.
  \<open>dbus\<close> holds what each call on the bus does during this poll.
\<close>

record py3 =
  COLOR_PLAYING :: "string option"
  COLOR_GOOD :: "string option"
  COLOR_PAUSED :: "string option"
  COLOR_DEGRADED :: "string option"
  COLOR_OFFLINE :: "string option"
  COLOR_BAD :: "string option"
  safe_format :: "string \<Rightarrow> (string \<times> pyval) list \<Rightarrow> exc + string"

record dbus =
  SessionBus :: "exc + unit"
  get_object :: "exc + unit"
  Get_Metadata :: "exc + pyval"
  Get_PlaybackStatus :: "exc + pyval"

text \<open>
  The first half of the inner \<open>try\<close> block of \<open>_get_text\<close>: album, first artist, the
  time text and the title, in the order of the source.
\<close>

definition read_track ::
  "config \<Rightarrow> patterns \<Rightarrow> pyval \<Rightarrow> exc + (pyval \<times> pyval \<times> pyval \<times> string)" where
  "read_track self pats metadata =
     bind_exc (py_get metadata ''xesam:album'') (\<lambda>album.
     bind_exc (py_get metadata ''xesam:artist'') (\<lambda>artists.
     bind_exc (py_item0 artists) (\<lambda>artist.
     bind_exc (py_get metadata ''mpris:length'') (\<lambda>microtime.
     bind_exc (timedelta microtime) (\<lambda>td.
     let rtime = slice_to_minus7 (str_timedelta td) in
     bind_exc (py_get metadata ''xesam:title'') (\<lambda>title.
     if sanitize_titles self then
       bind_exc (sanitize_value pats album) (\<lambda>album.
       bind_exc (sanitize_value pats title) (\<lambda>title.
       Inr (album, artist, title, rtime)))
     else Inr (album, artist, title, rtime)))))))"

text \<open>
  The second half: the colour from the playback status. A byte string has a \<open>strip\<close>
  method too, and what it returns is never equal to the string \<open>'Playing'\<close>; a value of
  any other type has no such method.
\<close>

definition select_color :: "py3 \<Rightarrow> pyval \<Rightarrow> exc + string option" where
  "select_color py playback_status =
     (case playback_status of
        PStr st \<Rightarrow>
          Inr (if strip st = ''Playing'' then py_or (COLOR_PLAYING py) (COLOR_GOOD py)
               else py_or (COLOR_PAUSED py) (COLOR_DEGRADED py))
      | PBytes st \<Rightarrow> Inr (py_or (COLOR_PAUSED py) (COLOR_DEGRADED py))
      | _ \<Rightarrow> Inl AttributeError)"

text \<open>
  The body of the inner \<open>try\<close> block of \<open>_get_text\<close>: both property reads, the
  fields of the track and the colour.
\<close>

definition inner_try ::
  "config \<Rightarrow> patterns \<Rightarrow> py3 \<Rightarrow> dbus
    \<Rightarrow> exc + ((pyval \<times> pyval \<times> pyval \<times> string) \<times> string option)" where
  "inner_try self pats py bus =
     bind_exc (Get_Metadata bus) (\<lambda>metadata.
     bind_exc (read_track self pats metadata) (\<lambda>track.
     bind_exc (Get_PlaybackStatus bus) (\<lambda>playback_status.
     bind_exc (select_color py playback_status) (\<lambda>color.
     Inr (track, color)))))"

text \<open>
  \<open>_get_text\<close>. \<open>dbus.SessionBus()\<close> stands before the outer \<open>try\<close>, so what it raises
  leaves the function. The inner handler returns the stopped text; the call of
  \<open>safe_format\<close> stands behind the inner \<open>try\<close> and inside the outer one.
\<close>

definition get_text :: "config \<Rightarrow> patterns \<Rightarrow> py3 \<Rightarrow> dbus \<Rightarrow> exc + (string \<times> string option)" where
  "get_text self pats py bus =
     (case SessionBus bus of
        Inl e \<Rightarrow> Inl e
      | Inr _ \<Rightarrow>
         (case
            bind_exc (get_object bus) (\<lambda>_.
              (case inner_try self pats py bus of
                 Inl e \<Rightarrow> Inr (format_stopped self, py_or (COLOR_PAUSED py) (COLOR_DEGRADED py))
               | Inr ((album, artist, title, rtime), color) \<Rightarrow>
                   bind_exc (safe_format py (format self)
                       [(''title'', title), (''artist'', artist), (''album'', album),
                        (''time'', PStr rtime)])
                     (\<lambda>text. Inr (text, color))))
          of
            Inl e \<Rightarrow> Inr (format_down self, py_or (COLOR_OFFLINE py) (COLOR_BAD py))
          | Inr result \<Rightarrow> Inr result))"

section \<open>Concrete collaborators for the examples\<close>

text \<open>
  A helper object with the three colours set and a formatter that lists the values it is
  given, one that raises instead, and a bus on which the player plays a track.
\<close>

definition show_value :: "pyval \<Rightarrow> string" where
  "show_value v = (case v of PStr s \<Rightarrow> s | PNone \<Rightarrow> ''None'' | _ \<Rightarrow> ''?'')"

definition listing_format :: "string \<Rightarrow> (string \<times> pyval) list \<Rightarrow> exc + string" where
  "listing_format fmt d = Inr (concat (map (\<lambda>(k, v). k @ ''='' @ show_value v @ '';'') d))"

definition py3_example :: py3 where
  "py3_example = \<lparr>
     COLOR_PLAYING = Some ''#00FF00'', COLOR_GOOD = None,
     COLOR_PAUSED = Some ''#FFFF00'', COLOR_DEGRADED = None,
     COLOR_OFFLINE = Some ''#FF0000'', COLOR_BAD = None,
     safe_format = listing_format \<rparr>"

definition py3_raising :: py3 where
  "py3_raising = py3_example \<lparr> safe_format := (\<lambda>fmt d. Inl OtherError) \<rparr>"

definition track_example :: pyval where
  "track_example = PDict [
     (''xesam:album'', PStr ''Whenever''),
     (''xesam:artist'', PList [PStr ''Rick Astley'']),
     (''mpris:length'', PInt 125000001),
     (''xesam:title'', PStr ''Never'')]"

definition bus_example :: dbus where
  "bus_example = \<lparr>
     SessionBus = Inr (), get_object = Inr (),
     Get_Metadata = Inr track_example,
     Get_PlaybackStatus = Inr (PStr ''Playing'') \<rparr>"

definition no_sanitize :: config where
  "no_sanitize = default_config \<lparr> sanitize_titles := False \<rparr>"

definition default_patterns :: patterns where
  "default_patterns =
     (case post_config_hook default_config of
        Some (Inr pats) \<Rightarrow> pats
      | _ \<Rightarrow> \<lparr> after_delimiter = Branch [], inside_brackets = Branch [] \<rparr>)"

definition no_patterns :: patterns where
  "no_patterns = \<lparr> after_delimiter = Branch [], inside_brackets = Branch [] \<rparr>"

section \<open>Notions for the properties of the patterns\<close>

definition plain_char :: "char \<Rightarrow> bool" where
  "plain_char c = (c \<notin> set ''.^$*+?{}[]|()'' \<and> c \<noteq> CHR 0x5C)"

definition plain_words :: "string list \<Rightarrow> bool" where
  "plain_words ws = (\<forall>w \<in> set ws. \<forall>c \<in> set w. plain_char c)"

definition lits :: "string \<Rightarrow> re" where
  "lits w = Seq (map Literal w)"

definition word_branch :: "string list \<Rightarrow> re" where
  "word_branch ws =
     (case ws of [] \<Rightarrow> Seq [] | [w] \<Rightarrow> lits w | _ \<Rightarrow> Branch (map lits ws))"


definition inside_brackets_re :: "string list \<Rightarrow> re" where
  "inside_brackets_re ws =
     Seq [Group (Seq [In False ''(['', Star False (In True '')]''),
                      Group (word_branch ws), Star False (In True '')]''),
                      In False '')]''])]"

definition ci_eq :: "string \<Rightarrow> string \<Rightarrow> bool" where
  "ci_eq a b = (map lower a = map lower b)"

definition alts :: "string list \<Rightarrow> string list" where
  "alts ws = (if ws = [] then [[]] else ws)"

definition first_match :: "re \<Rightarrow> string \<Rightarrow> string option" where
  "first_match r s = find (\<lambda>s'. length s' < length s) (ms r s)"


text \<open>a bracket match at the start of s, leaving s'\<close>

definition has_word :: "string list \<Rightarrow> string \<Rightarrow> bool" where
  "has_word ws seg = (\<exists>p1 m p2. seg = p1 @ m @ p2 \<and> (\<exists>w \<in> set (alts ws). ci_eq m w))"

definition bracket_match :: "string list \<Rightarrow> string \<Rightarrow> string \<Rightarrow> bool" where
  "bracket_match ws s s' =
     (\<exists>x seg y. s = x # seg @ y # s' \<and> x \<in> set ''(['' \<and> (\<forall>c \<in> set seg. c \<notin> set '')]'')
        \<and> y \<in> set '')]'' \<and> has_word ws seg)"

definition bar_plain :: "string \<Rightarrow> bool" where
  "bar_plain t = (\<forall>c \<in> set t. plain_char c \<or> c = CHR ''|'')"

section \<open>The time text\<close>

lemma timedelta_125000000: "timedelta (PInt 125000000) = Inr (0, 125, 0)"
  by (simp add: timedelta_us_def)

lemma str_timedelta_125: "str_timedelta (0, 125, 0) = ''0:02:05''"
  by code_simp

text \<open>
  C3. A duration of 125,000,000 microseconds has no microsecond part, so its text is
  \<open>0:02:05\<close> without a fraction, and the slice that is meant to cut the fraction off
  cuts these seven characters off: the time text is empty.
\<close>

theorem rtime_whole_seconds_empty:
  "timedelta (PInt 125000000) = Inr (0, 125, 0)
   \<and> str_timedelta (0, 125, 0) = ''0:02:05''
   \<and> slice_to_minus7 (str_timedelta (0, 125, 0)) = []
   \<and> read_track no_sanitize pats
        (PDict [(''xesam:album'', PStr ''Whenever''),
                (''xesam:artist'', PList [PStr ''Rick Astley'']),
                (''mpris:length'', PInt 125000000),
                (''xesam:title'', PStr ''Never'')])
      = Inr (PStr ''Whenever'', PStr ''Rick Astley'', PStr ''Never'', [])"
  by (simp add: timedelta_125000000 [simplified] timedelta_us_def str_timedelta_125
      slice_to_minus7_def read_track_def bind_exc_def dict_get_def no_sanitize_def
      default_config_def)

section \<open>The poll\<close>

lemma get_text_cases:
  assumes "SessionBus bus = Inr u"
  shows "get_text self pats py bus =
     (case get_object bus of
        Inl e \<Rightarrow> Inr (format_down self, py_or (COLOR_OFFLINE py) (COLOR_BAD py))
      | Inr _ \<Rightarrow>
          (case inner_try self pats py bus of
             Inl e \<Rightarrow> Inr (format_stopped self, py_or (COLOR_PAUSED py) (COLOR_DEGRADED py))
           | Inr ((album, artist, title, rtime), color) \<Rightarrow>
               (case safe_format py (format self)
                       [(''title'', title), (''artist'', artist), (''album'', album),
                        (''time'', PStr rtime)] of
                  Inl e \<Rightarrow> Inr (format_down self, py_or (COLOR_OFFLINE py) (COLOR_BAD py))
                | Inr text \<Rightarrow> Inr (text, color))))"
  using assms by (simp add: get_text_def bind_exc_def split: sum.splits prod.splits)

text \<open>
  C5. When the poll gets through both reads and the rendering, the colour is the playing
  colour if the playback status, with the white space around it removed, is the string
  \<open>Playing\<close> character for character, and the paused colour for every other string.
\<close>

theorem playing_color_selected:
  assumes "SessionBus bus = Inr ()" and "get_object bus = Inr ()"
    and "Get_Metadata bus = Inr metadata"
    and "read_track self pats metadata = Inr (album, artist, title, rtime)"
    and "Get_PlaybackStatus bus = Inr (PStr st)"
    and "safe_format py (format self)
           [(''title'', title), (''artist'', artist), (''album'', album),
            (''time'', PStr rtime)] = Inr text"
  shows "get_text self pats py bus =
    Inr (text,
      if strip st = ''Playing'' then py_or (COLOR_PLAYING py) (COLOR_GOOD py)
      else py_or (COLOR_PAUSED py) (COLOR_DEGRADED py))"
  using assms
  by (simp add: get_text_cases [of bus "()"] inner_try_def select_color_def bind_exc_def)

lemma read_track_example:
  "read_track no_sanitize no_patterns track_example
     = Inr (PStr ''Whenever'', PStr ''Rick Astley'', PStr ''Never'', ''0:02:05'')"
  apply (simp add: read_track_def bind_exc_def dict_get_def track_example_def no_sanitize_def default_config_def slice_to_minus7_def)
  apply code_simp
  done

text \<open>
  The status \<open>Playing\<close> gives the playing colour, the status \<open>playing\<close> the
  paused one.
\<close>

theorem playing_color_selected_witness:
  "get_text no_sanitize no_patterns py3_example bus_example
     = Inr (''title=Never;artist=Rick Astley;album=Whenever;time=0:02:05;'', Some ''#00FF00'')
   \<and> get_text no_sanitize no_patterns py3_example
        (bus_example \<lparr> Get_PlaybackStatus := Inr (PStr ''playing'') \<rparr>)
     = Inr (''title=Never;artist=Rick Astley;album=Whenever;time=0:02:05;'', Some ''#FFFF00'')"
  using playing_color_selected [of bus_example track_example no_sanitize no_patterns
      "PStr ''Whenever''" "PStr ''Rick Astley''" "PStr ''Never''" "''0:02:05''" "''Playing''" py3_example
      "''title=Never;artist=Rick Astley;album=Whenever;time=0:02:05;''"]
    playing_color_selected [of "bus_example \<lparr> Get_PlaybackStatus := Inr (PStr ''playing'') \<rparr>" track_example no_sanitize no_patterns
      "PStr ''Whenever''" "PStr ''Rick Astley''" "PStr ''Never''" "''0:02:05''" "''playing''" py3_example
      "''title=Never;artist=Rick Astley;album=Whenever;time=0:02:05;''"]
    read_track_example
  by (simp add: bus_example_def py3_example_def listing_format_def show_value_def py_or_def strip_def isspace_def)


text \<open>
  C10. When the metadata is read, the track's fields are extracted and the rendering
  returns a text, that text is returned for every playback status string: the status
  decides the colour only.
\<close>

theorem text_independent_of_status:
  assumes "SessionBus bus = Inr ()" and "get_object bus = Inr ()"
    and "Get_Metadata bus = Inr metadata"
    and "read_track self pats metadata = Inr (album, artist, title, rtime)"
    and "safe_format py (format self)
           [(''title'', title), (''artist'', artist), (''album'', album),
            (''time'', PStr rtime)] = Inr text"
  shows "\<exists>color. get_text self pats py (bus \<lparr> Get_PlaybackStatus := Inr (PStr st) \<rparr>)
           = Inr (text, color)"
  using assms
  by (simp add: get_text_cases [of _ "()"] inner_try_def select_color_def bind_exc_def)

text \<open>
  The status \<open>Paused\<close> leaves the rendered text in place.
\<close>

theorem text_independent_of_status_witness:
  "\<exists>color. get_text no_sanitize no_patterns py3_example
      (bus_example \<lparr> Get_PlaybackStatus := Inr (PStr ''Paused'') \<rparr>)
     = Inr (''title=Never;artist=Rick Astley;album=Whenever;time=0:02:05;'', color)"
  using text_independent_of_status [of bus_example track_example no_sanitize no_patterns
      "PStr ''Whenever''" "PStr ''Rick Astley''" "PStr ''Never''" "''0:02:05''" py3_example
      "''title=Never;artist=Rick Astley;album=Whenever;time=0:02:05;''" "''Paused''"]
    read_track_example
  by (simp add: bus_example_def py3_example_def listing_format_def show_value_def)

text \<open>
  C2, as stated, fails: the player object is reached and both reads succeed, the
  formatter raises, and the poll returns the down text with the offline colour.
\<close>

theorem render_error_gives_down_state:
  "get_object bus_example = Inr ()
   \<and> (\<exists>r. inner_try no_sanitize no_patterns py3_raising bus_example = Inr r)
   \<and> get_text no_sanitize no_patterns py3_raising bus_example
       = Inr (''MellowPlayer not running'', Some ''#FF0000'')"
  using read_track_example
  by (simp add: get_text_cases [of _ "()"] inner_try_def select_color_def bind_exc_def
      bus_example_def py3_raising_def py3_example_def py_or_def no_sanitize_def default_config_def)

text \<open>
  C2, amended. With the session bus at hand: when the player object cannot be reached the
  poll returns the down text with the offline colour; once it is reached, an error
  anywhere in the inner block (the reads, the fields, the sanitising, the colour) gives
  the stopped text with the paused colour; an error of the rendering, which stands behind
  the inner block, is caught by the outer handler and gives the down text again.
\<close>

theorem error_tiers:
  assumes "SessionBus bus = Inr ()"
  shows "(\<forall>e. get_object bus = Inl e \<longrightarrow>
            get_text self pats py bus
              = Inr (format_down self, py_or (COLOR_OFFLINE py) (COLOR_BAD py)))
       \<and> (\<forall>e. get_object bus = Inr () \<longrightarrow> inner_try self pats py bus = Inl e \<longrightarrow>
            get_text self pats py bus
              = Inr (format_stopped self, py_or (COLOR_PAUSED py) (COLOR_DEGRADED py)))
       \<and> (\<forall>album artist title rtime color e.
            get_object bus = Inr () \<longrightarrow>
            inner_try self pats py bus = Inr ((album, artist, title, rtime), color) \<longrightarrow>
            safe_format py (format self)
              [(''title'', title), (''artist'', artist), (''album'', album),
               (''time'', PStr rtime)] = Inl e \<longrightarrow>
            get_text self pats py bus
              = Inr (format_down self, py_or (COLOR_OFFLINE py) (COLOR_BAD py)))"
  using assms by (simp add: get_text_cases [of _ "()"])

text \<open>
  An unreachable player gives the down state, a failing metadata read the stopped state.
\<close>

theorem error_tiers_witness:
  "get_text default_config no_patterns py3_example (bus_example \<lparr> get_object := Inl DBusException \<rparr>)
     = Inr (''MellowPlayer not running'', Some ''#FF0000'')
   \<and> get_text default_config no_patterns py3_example (bus_example \<lparr> Get_Metadata := Inl DBusException \<rparr>)
     = Inr (''MellowPlayer stopped'', Some ''#FFFF00'')"
  using error_tiers [of "bus_example \<lparr> get_object := Inl DBusException \<rparr>" default_config no_patterns py3_example]
    error_tiers [of "bus_example \<lparr> Get_Metadata := Inl DBusException \<rparr>" default_config no_patterns py3_example]
  by (simp add: bus_example_def py3_example_def py_or_def default_config_def inner_try_def bind_exc_def)

lemma stopped_if_inner_fails:
  assumes "SessionBus bus = Inr ()" and "get_object bus = Inr ()"
    and "inner_try self pats py bus = Inl e"
  shows "get_text self pats py bus
           = Inr (format_stopped self, py_or (COLOR_PAUSED py) (COLOR_DEGRADED py))"
  using assms by (simp add: get_text_cases [of _ "()"])

lemma bind_exc_Inl [simp]: "bind_exc (Inl e) f = Inl e"
  by (simp add: bind_exc_def)

lemma bind_exc_Inr [simp]: "bind_exc (Inr x) f = f x"
  by (simp add: bind_exc_def)

lemma bind_exc_fails: "(\<And>x. \<exists>e. f x = Inl e) \<Longrightarrow> \<exists>e. bind_exc m f = Inl e"
  by (cases m) auto

lemma py_item0_fails:
  assumes "\<forall>v vs. a \<noteq> PList (v # vs)" and "\<forall>v vs. a \<noteq> PTuple (v # vs)"
    and "\<forall>c cs. a \<noteq> PStr (c # cs)" and "\<forall>c cs. a \<noteq> PBytes (c # cs)"
  shows "\<exists>e. py_item0 a = Inl e"
  using assms by (cases a rule: py_item0.cases) auto

lemma timedelta_fails:
  assumes "\<forall>n. v \<noteq> PInt n" and "\<forall>b. v \<noteq> PBool b" and "\<forall>x. v \<noteq> PFloat x"
  shows "\<exists>e. timedelta v = Inl e"
  using assms by (cases v) auto

lemma sanitize_value_fails: "(\<forall>s. v \<noteq> PStr s) \<Longrightarrow> sanitize_value pats v = Inl TypeError"
  by (cases v) (auto simp: sanitize_value_def)

lemma select_color_fails:
  assumes "\<forall>s. v \<noteq> PStr s" and "\<forall>b. v \<noteq> PBytes b"
  shows "\<exists>e. select_color py v = Inl e"
  using assms by (cases v) (auto simp: select_color_def)

lemma read_track_not_dict: "(\<forall>d. md \<noteq> PDict d) \<Longrightarrow> \<exists>e. read_track self pats md = Inl e"
  by (cases md) (auto simp: read_track_def)

lemma read_track_fails:
  assumes "(\<exists>e. py_item0 (dict_get d ''xesam:artist'') = Inl e)
         \<or> (\<exists>e. timedelta (dict_get d ''mpris:length'') = Inl e)
         \<or> (sanitize_titles self \<and> (\<forall>s. dict_get d ''xesam:album'' \<noteq> PStr s))
         \<or> (sanitize_titles self \<and> (\<forall>s. dict_get d ''xesam:title'' \<noteq> PStr s))"
  shows "\<exists>e. read_track self pats (PDict d) = Inl e"
proof -
  consider (artist) e where "py_item0 (dict_get d ''xesam:artist'') = Inl e"
    | (len) e where "timedelta (dict_get d ''mpris:length'') = Inl e"
    | (album) "sanitize_titles self" "\<forall>s. dict_get d ''xesam:album'' \<noteq> PStr s"
    | (title) "sanitize_titles self" "\<forall>s. dict_get d ''xesam:title'' \<noteq> PStr s"
    using assms by blast
  then show ?thesis
  proof cases
    case artist
    then show ?thesis by (simp add: read_track_def)
  next
    case len
    then show ?thesis
      by (cases "py_item0 (dict_get d ''xesam:artist'')") (simp_all add: read_track_def)
  next
    case album
    then have "sanitize_value pats (dict_get d ''xesam:album'') = Inl TypeError"
      by (simp add: sanitize_value_fails)
    then show ?thesis using album(1)
      by (cases "py_item0 (dict_get d ''xesam:artist'')";
          cases "timedelta (dict_get d ''mpris:length'')")
         (simp_all add: read_track_def Let_def)
  next
    case title
    then have "sanitize_value pats (dict_get d ''xesam:title'') = Inl TypeError"
      by (simp add: sanitize_value_fails)
    then show ?thesis using title(1)
      by (cases "py_item0 (dict_get d ''xesam:artist'')";
          cases "timedelta (dict_get d ''mpris:length'')";
          cases "sanitize_value pats (dict_get d ''xesam:album'')")
         (simp_all add: read_track_def Let_def)
  qed
qed

lemma inner_try_fails:
  assumes "(\<exists>e. Get_Metadata bus = Inl e)
       \<or> (\<exists>e. Get_PlaybackStatus bus = Inl e)
       \<or> (\<exists>v. Get_PlaybackStatus bus = Inr v \<and> (\<exists>e. select_color py v = Inl e))
       \<or> (\<exists>md. Get_Metadata bus = Inr md \<and> (\<exists>e. read_track self pats md = Inl e))"
  shows "\<exists>e. inner_try self pats py bus = Inl e"
proof -
  consider (md) e where "Get_Metadata bus = Inl e"
    | (st) e where "Get_PlaybackStatus bus = Inl e"
    | (stv) v e where "Get_PlaybackStatus bus = Inr v" "select_color py v = Inl e"
    | (track) md e where "Get_Metadata bus = Inr md" "read_track self pats md = Inl e"
    using assms by blast
  then show ?thesis
  proof cases
    case md then show ?thesis by (simp add: inner_try_def)
  next
    case st then show ?thesis
      by (auto simp: inner_try_def bind_exc_def split: sum.splits)
  next
    case stv then show ?thesis
      by (auto simp: inner_try_def bind_exc_def split: sum.splits)
  next
    case track then show ?thesis by (simp add: inner_try_def)
  qed
qed

text \<open>
  C4, amended. With the player object reached, the poll returns the stopped text with the
  paused colour
  \<^item> when a property read raises;
  \<^item> when the playback status is neither a string nor a byte string;
  \<^item> when the metadata is not a dictionary;
  \<^item> when the artist entry is missing, a number or an empty sequence: anything but a list,
    a tuple, a string or a byte string with a first element, or a dictionary;
  \<^item> when the length is missing or not a number: anything but an integer, a boolean or a
    finite float;
  \<^item> and, with sanitising switched on, when the album or the title is missing or not a
    string.
\<close>

theorem stopped_on_read_errors:
  assumes "SessionBus bus = Inr ()" and "get_object bus = Inr ()"
    and "(\<exists>e. Get_Metadata bus = Inl e)
       \<or> (\<exists>e. Get_PlaybackStatus bus = Inl e)
       \<or> (\<exists>v. Get_PlaybackStatus bus = Inr v \<and> (\<forall>s. v \<noteq> PStr s) \<and> (\<forall>b. v \<noteq> PBytes b))
       \<or> (\<exists>md. Get_Metadata bus = Inr md \<and> (\<forall>d. md \<noteq> PDict d))
       \<or> (\<exists>d. Get_Metadata bus = Inr (PDict d) \<and>
            (((\<forall>v vs. dict_get d ''xesam:artist'' \<noteq> PList (v # vs))
                \<and> (\<forall>v vs. dict_get d ''xesam:artist'' \<noteq> PTuple (v # vs))
                \<and> (\<forall>c cs. dict_get d ''xesam:artist'' \<noteq> PStr (c # cs))
                \<and> (\<forall>c cs. dict_get d ''xesam:artist'' \<noteq> PBytes (c # cs))
                \<and> (\<forall>a. dict_get d ''xesam:artist'' \<noteq> PDict a))
             \<or> ((\<forall>n. dict_get d ''mpris:length'' \<noteq> PInt n)
                \<and> (\<forall>b. dict_get d ''mpris:length'' \<noteq> PBool b)
                \<and> (\<forall>x. dict_get d ''mpris:length'' \<noteq> PFloat x))
             \<or> (sanitize_titles self \<and> (\<forall>s. dict_get d ''xesam:album'' \<noteq> PStr s))
             \<or> (sanitize_titles self \<and> (\<forall>s. dict_get d ''xesam:title'' \<noteq> PStr s))))"
  shows "get_text self pats py bus
           = Inr (format_stopped self, py_or (COLOR_PAUSED py) (COLOR_DEGRADED py))"
proof -
  have "\<exists>e. inner_try self pats py bus = Inl e"
  proof -
    consider (md) e where "Get_Metadata bus = Inl e"
      | (st) e where "Get_PlaybackStatus bus = Inl e"
      | (stv) v where "Get_PlaybackStatus bus = Inr v" "\<forall>s. v \<noteq> PStr s" "\<forall>b. v \<noteq> PBytes b"
      | (nodict) md where "Get_Metadata bus = Inr md" "\<forall>d. md \<noteq> PDict d"
      | (artist) d where "Get_Metadata bus = Inr (PDict d)"
          "\<forall>v vs. dict_get d ''xesam:artist'' \<noteq> PList (v # vs)"
          "\<forall>v vs. dict_get d ''xesam:artist'' \<noteq> PTuple (v # vs)"
          "\<forall>c cs. dict_get d ''xesam:artist'' \<noteq> PStr (c # cs)"
          "\<forall>c cs. dict_get d ''xesam:artist'' \<noteq> PBytes (c # cs)"
      | (len) d where "Get_Metadata bus = Inr (PDict d)"
          "\<forall>n. dict_get d ''mpris:length'' \<noteq> PInt n"
          "\<forall>b. dict_get d ''mpris:length'' \<noteq> PBool b"
          "\<forall>x. dict_get d ''mpris:length'' \<noteq> PFloat x"
      | (field) d where "Get_Metadata bus = Inr (PDict d)"
          "(sanitize_titles self \<and> (\<forall>s. dict_get d ''xesam:album'' \<noteq> PStr s))
             \<or> (sanitize_titles self \<and> (\<forall>s. dict_get d ''xesam:title'' \<noteq> PStr s))"
      using assms(3) by blast
    then show ?thesis
    proof cases
      case md then show ?thesis by (intro inner_try_fails) blast
    next
      case st then show ?thesis by (intro inner_try_fails) blast
    next
      case stv
      from select_color_fails [OF stv(2,3)] obtain e where "select_color py v = Inl e" by blast
      with stv(1) show ?thesis by (intro inner_try_fails) blast
    next
      case nodict
      from read_track_not_dict [OF nodict(2)] obtain e where "read_track self pats md = Inl e"
        by blast
      with nodict(1) show ?thesis by (intro inner_try_fails) blast
    next
      case artist
      from py_item0_fails [OF artist(2-5)]
      have "\<exists>e. read_track self pats (PDict d) = Inl e"
        by (intro read_track_fails) blast
      with artist(1) show ?thesis by (intro inner_try_fails) blast
    next
      case len
      from timedelta_fails [OF len(2-4)]
      have "\<exists>e. read_track self pats (PDict d) = Inl e"
        by (intro read_track_fails) blast
      with len(1) show ?thesis by (intro inner_try_fails) blast
    next
      case field
      then have "\<exists>e. read_track self pats (PDict d) = Inl e"
        by (intro read_track_fails) blast
      with field(1) show ?thesis by (intro inner_try_fails) blast
    qed
  qed
  then show ?thesis using stopped_if_inner_fails assms(1,2) by blast
qed

text \<open>
  An empty metadata dictionary (no track) gives the stopped state, and so does a playback
  status that is a number.
\<close>

theorem stopped_on_read_errors_witness:
  "get_text default_config no_patterns py3_example
      (bus_example \<lparr> Get_Metadata := Inr (PDict []) \<rparr>)
     = Inr (''MellowPlayer stopped'', Some ''#FFFF00'')
   \<and> get_text default_config no_patterns py3_example
      (bus_example \<lparr> Get_PlaybackStatus := Inr (PInt 1) \<rparr>)
     = Inr (''MellowPlayer stopped'', Some ''#FFFF00'')"
  using stopped_on_read_errors [of "bus_example \<lparr> Get_Metadata := Inr (PDict []) \<rparr>"
      default_config no_patterns py3_example]
    stopped_on_read_errors [of "bus_example \<lparr> Get_PlaybackStatus := Inr (PInt 1) \<rparr>"
      default_config no_patterns py3_example]
  by (simp add: bus_example_def py3_example_def py_or_def default_config_def dict_get_def)

text \<open>
  C4, as stated, fails: with sanitising switched off a missing album raises nothing, the
  formatter gets \<open>None\<close> for it and the poll returns the rendered text.
\<close>

theorem missing_album_not_stopped:
  "get_text no_sanitize no_patterns py3_example
      (bus_example \<lparr> Get_Metadata := Inr (PDict [
          (''xesam:artist'', PList [PStr ''Rick Astley'']),
          (''mpris:length'', PInt 125000001),
          (''xesam:title'', PStr ''Never'')]) \<rparr>)
     = Inr (''title=Never;artist=Rick Astley;album=None;time=0:02:05;'', Some ''#00FF00'')
   \<and> get_text no_sanitize no_patterns py3_example
      (bus_example \<lparr> Get_Metadata := Inr (PDict [
          (''xesam:artist'', PList [PStr ''Rick Astley'']),
          (''mpris:length'', PInt 125000001),
          (''xesam:title'', PStr ''Never'')]) \<rparr>)
     \<noteq> Inr (format_stopped no_sanitize,
            py_or (COLOR_PAUSED py3_example) (COLOR_DEGRADED py3_example))"
proof -
  have t: "slice_to_minus7 (str_timedelta (0, 125, 1)) = ''0:02:05''"
    by code_simp
  have "get_text no_sanitize no_patterns py3_example
      (bus_example \<lparr> Get_Metadata := Inr (PDict [
          (''xesam:artist'', PList [PStr ''Rick Astley'']),
          (''mpris:length'', PInt 125000001),
          (''xesam:title'', PStr ''Never'')]) \<rparr>)
     = Inr (''title=Never;artist=Rick Astley;album=None;time=0:02:05;'', Some ''#00FF00'')"
    by (simp add: get_text_cases [of _ "()"] inner_try_def read_track_def select_color_def
        dict_get_def bus_example_def py3_example_def py_or_def no_sanitize_def
        default_config_def listing_format_def show_value_def strip_def isspace_def t
        timedelta_us_def)
  then show ?thesis
    by (simp add: no_sanitize_def default_config_def)
qed

text \<open>
  C6, amended. The metadata is a dictionary \<open>d\<close>, and \<open>dict_get d key\<close> is \<open>None\<close> when
  the key is missing. With sanitising switched off, the album and the title are handed to
  the formatter as they are, so a missing one as \<open>None\<close>, and the poll returns what the
  formatter makes of them, with the colour of the playback status. A missing artist, a
  missing length and, with sanitising switched on, a missing album or a missing title
  raise inside the inner block, and the poll returns the stopped text with the paused
  colour.
\<close>

theorem null_fields_reach_formatter:
  assumes "SessionBus bus = Inr ()" and "get_object bus = Inr ()"
    and "Get_Metadata bus = Inr (PDict d)"
  shows "(\<not> sanitize_titles self
          \<and> py_item0 (dict_get d ''xesam:artist'') = Inr artist
          \<and> timedelta (dict_get d ''mpris:length'') = Inr td
          \<and> Get_PlaybackStatus bus = Inr (PStr st)
          \<and> safe_format py (format self)
               [(''title'', dict_get d ''xesam:title''), (''artist'', artist),
                (''album'', dict_get d ''xesam:album''),
                (''time'', PStr (slice_to_minus7 (str_timedelta td)))] = Inr text
          \<longrightarrow> get_text self pats py bus =
                Inr (text,
                  if strip st = ''Playing'' then py_or (COLOR_PLAYING py) (COLOR_GOOD py)
                  else py_or (COLOR_PAUSED py) (COLOR_DEGRADED py)))
       \<and> (dict_get d ''xesam:artist'' = PNone
            \<or> dict_get d ''mpris:length'' = PNone
            \<or> (sanitize_titles self
                \<and> (dict_get d ''xesam:album'' = PNone \<or> dict_get d ''xesam:title'' = PNone))
          \<longrightarrow> get_text self pats py bus =
                Inr (format_stopped self, py_or (COLOR_PAUSED py) (COLOR_DEGRADED py)))"
proof (intro conjI impI)
  assume "\<not> sanitize_titles self
          \<and> py_item0 (dict_get d ''xesam:artist'') = Inr artist
          \<and> timedelta (dict_get d ''mpris:length'') = Inr td
          \<and> Get_PlaybackStatus bus = Inr (PStr st)
          \<and> safe_format py (format self)
               [(''title'', dict_get d ''xesam:title''), (''artist'', artist),
                (''album'', dict_get d ''xesam:album''),
                (''time'', PStr (slice_to_minus7 (str_timedelta td)))] = Inr text"
  with assms show "get_text self pats py bus =
      Inr (text,
        if strip st = ''Playing'' then py_or (COLOR_PLAYING py) (COLOR_GOOD py)
        else py_or (COLOR_PAUSED py) (COLOR_DEGRADED py))"
    by (simp add: get_text_cases [of _ "()"] inner_try_def read_track_def select_color_def)
next
  assume a: "dict_get d ''xesam:artist'' = PNone
            \<or> dict_get d ''mpris:length'' = PNone
            \<or> (sanitize_titles self
                \<and> (dict_get d ''xesam:album'' = PNone \<or> dict_get d ''xesam:title'' = PNone))"
  have "(\<exists>e. py_item0 (dict_get d ''xesam:artist'') = Inl e)
         \<or> (\<exists>e. timedelta (dict_get d ''mpris:length'') = Inl e)
         \<or> (sanitize_titles self \<and> (\<forall>s. dict_get d ''xesam:album'' \<noteq> PStr s))
         \<or> (sanitize_titles self \<and> (\<forall>s. dict_get d ''xesam:title'' \<noteq> PStr s))"
    using a by auto
  from read_track_fails [OF this]
  obtain e where "read_track self pats (PDict d) = Inl e" by blast
  with assms(3) have "\<exists>e. inner_try self pats py bus = Inl e"
    by (intro inner_try_fails) blast
  then show "get_text self pats py bus =
      Inr (format_stopped self, py_or (COLOR_PAUSED py) (COLOR_DEGRADED py))"
    using stopped_if_inner_fails assms(1,2) by blast
qed

text \<open>
  With sanitising switched off: the title alone is missing, the album alone is missing,
  and the formatter sees \<open>None\<close> for the one that is missing. With the default
  configuration a missing artist gives the stopped state.
\<close>

theorem null_fields_reach_formatter_witness:
  "get_text no_sanitize no_patterns py3_example
      (bus_example \<lparr> Get_Metadata := Inr (PDict [
          (''xesam:album'', PStr ''Whenever''),
          (''xesam:artist'', PList [PStr ''Rick Astley'']),
          (''mpris:length'', PInt 125000001)]) \<rparr>)
     = Inr (''title=None;artist=Rick Astley;album=Whenever;time=0:02:05;'', Some ''#00FF00'')
   \<and> get_text no_sanitize no_patterns py3_example
      (bus_example \<lparr> Get_Metadata := Inr (PDict [
          (''xesam:artist'', PList [PStr ''Rick Astley'']),
          (''mpris:length'', PInt 125000001),
          (''xesam:title'', PStr ''Never'')]) \<rparr>)
     = Inr (''title=Never;artist=Rick Astley;album=None;time=0:02:05;'', Some ''#00FF00'')
   \<and> get_text default_config default_patterns py3_example
      (bus_example \<lparr> Get_Metadata := Inr (PDict [
          (''xesam:album'', PStr ''Whenever''),
          (''mpris:length'', PInt 125000001),
          (''xesam:title'', PStr ''Never'')]) \<rparr>)
     = Inr (''MellowPlayer stopped'', Some ''#FFFF00'')"
proof -
  have t: "slice_to_minus7 (str_timedelta (0, 125, 1)) = ''0:02:05''"
    by code_simp
  show ?thesis
    using null_fields_reach_formatter [of
      "bus_example \<lparr> Get_Metadata := Inr (PDict [
          (''xesam:album'', PStr ''Whenever''),
          (''xesam:artist'', PList [PStr ''Rick Astley'']),
          (''mpris:length'', PInt 125000001)]) \<rparr>"
      "[(''xesam:album'', PStr ''Whenever''),
        (''xesam:artist'', PList [PStr ''Rick Astley'']), (''mpris:length'', PInt 125000001)]"
      no_sanitize "PStr ''Rick Astley''" "(0, 125, 1)" "''Playing''" py3_example
      "''title=None;artist=Rick Astley;album=Whenever;time=0:02:05;''" no_patterns]
     null_fields_reach_formatter [of
      "bus_example \<lparr> Get_Metadata := Inr (PDict [
          (''xesam:artist'', PList [PStr ''Rick Astley'']),
          (''mpris:length'', PInt 125000001),
          (''xesam:title'', PStr ''Never'')]) \<rparr>"
      "[(''xesam:artist'', PList [PStr ''Rick Astley'']), (''mpris:length'', PInt 125000001),
        (''xesam:title'', PStr ''Never'')]"
      no_sanitize "PStr ''Rick Astley''" "(0, 125, 1)" "''Playing''" py3_example
      "''title=Never;artist=Rick Astley;album=None;time=0:02:05;''" no_patterns]
     null_fields_reach_formatter [of
      "bus_example \<lparr> Get_Metadata := Inr (PDict [
          (''xesam:album'', PStr ''Whenever''),
          (''mpris:length'', PInt 125000001),
          (''xesam:title'', PStr ''Never'')]) \<rparr>"
      "[(''xesam:album'', PStr ''Whenever''), (''mpris:length'', PInt 125000001),
        (''xesam:title'', PStr ''Never'')]"
      default_config undefined undefined undefined py3_example undefined default_patterns]
    by (simp add: bus_example_def py3_example_def py_or_def no_sanitize_def default_config_def
        dict_get_def listing_format_def show_value_def strip_def isspace_def t timedelta_us_def)
qed

text \<open>
  C6, as stated, fails: with the default configuration a missing title makes
  \<open>re.sub\<close> raise, and the poll degrades to the stopped text.
\<close>

theorem missing_title_degrades:
  "get_text default_config default_patterns py3_example
      (bus_example \<lparr> Get_Metadata := Inr (PDict [
          (''xesam:album'', PStr ''Whenever''),
          (''xesam:artist'', PList [PStr ''Rick Astley'']),
          (''mpris:length'', PInt 125000001)]) \<rparr>)
     = Inr (''MellowPlayer stopped'', Some ''#FFFF00'')"
proof -
  have "sanitize_value default_patterns PNone = Inl TypeError"
    by (simp add: sanitize_value_def)
  then show ?thesis
    by (simp add: get_text_cases [of _ "()"] inner_try_def read_track_def
        dict_get_def bus_example_def py3_example_def py_or_def
        default_config_def sanitize_value_def timedelta_us_def)
qed

section \<open>The patterns\<close>



lemma build_atoms: "map build (map (\<lambda>c. Atom (Literal c)) w) = map Literal w"
  by (induction w) simp_all










lemma of_char_lower:
  "(of_char (lower c) :: nat) =
     (if (65 \<le> (of_char c :: nat) \<and> (of_char c :: nat) \<le> 90)
         \<or> (192 \<le> (of_char c :: nat) \<and> (of_char c :: nat) \<le> 222 \<and> (of_char c :: nat) \<noteq> 215)
      then of_char c + 32 else of_char c)"
  by (simp add: lower_def Let_def take_bit_nat_eq_self)

lemma lower_eq_punct:
  assumes "(of_char d :: nat) < 65 \<or> (90 < (of_char d :: nat) \<and> (of_char d :: nat) < 97)"
  shows "(lower x = d) = (x = d)"
proof
  assume "lower x = d"
  then have "(of_char (lower x) :: nat) = of_char d" by simp
  then have "(of_char x :: nat) = of_char d"
    using assms unfolding of_char_lower by (simp split: if_splits) linarith
  then show "x = d" by simp
next
  assume "x = d"
  moreover have "\<not> (65 \<le> (of_char d :: nat) \<and> (of_char d :: nat) \<le> 90)"
    and "\<not> (192 \<le> (of_char d :: nat) \<and> (of_char d :: nat) \<le> 222 \<and> (of_char d :: nat) \<noteq> 215)"
    using assms by linarith+
  ultimately show "lower x = d" by (simp add: lower_def Let_def) blast
qed

lemma lower_punct [simp]:
  "lower CHR ''-'' = CHR ''-''" "lower CHR '','' = CHR '',''"
  "lower CHR '';'' = CHR '';''" "lower CHR ''/'' = CHR ''/''"
  "lower CHR ''('' = CHR ''(''" "lower CHR ''['' = CHR ''[''"
  "lower CHR '')'' = CHR '')''" "lower CHR '']'' = CHR '']''"
  by (simp_all add: lower_def)

lemma lower_is_punct [simp]:
  "(lower x = CHR ''-'') = (x = CHR ''-'')" "(lower x = CHR '','') = (x = CHR '','')"
  "(lower x = CHR '';'') = (x = CHR '';'')" "(lower x = CHR ''/'') = (x = CHR ''/'')"
  "(lower x = CHR ''('') = (x = CHR ''('')" "(lower x = CHR ''['') = (x = CHR ''['')"
  "(lower x = CHR '')'') = (x = CHR '')'')" "(lower x = CHR '']'') = (x = CHR '']'')"
  by (simp_all add: lower_eq_punct)

lemma in_set_delims [simp]: "in_set b ''-,;/'' x = (b \<noteq> (x \<in> set ''-,;/''))"
  by (simp add: in_set_def)

lemma in_set_open [simp]: "in_set b ''(['' x = (b \<noteq> (x \<in> set ''(['' ))"
  by (simp add: in_set_def)

lemma in_set_close [simp]: "in_set b '')]'' x = (b \<noteq> (x \<in> set '')]''))"
  by (simp add: in_set_def)

lemma ms_Star_set:
  "set (ms (Star greedy r) s)
     = insert s (\<Union>t \<in> set (ms r s).
         if length t < length s then set (ms (Star greedy r) t) else {t})"
  by (subst ms.simps(4)) (auto simp: Let_def split: if_splits)

lemma ms_suffix: "s' \<in> set (ms r s) \<Longrightarrow> \<exists>p. s = p @ s'"
proof (induction r s arbitrary: s' rule: ms.induct)
  case (1 c s)
  then show ?case by (cases s) (auto split: if_splits)
next
  case (2 s)
  then show ?case by (cases s) (auto split: if_splits)
next
  case (3 negate cs s)
  then show ?case by (cases s) (auto split: if_splits)
next
  case (4 greedy r s)
  from "4.prems" have "s' = s \<or> (\<exists>t \<in> set (ms r s).
      if length t < length s then s' \<in> set (ms (Star greedy r) t) else s' = t)"
    unfolding ms_Star_set [of greedy r s] by (auto split: if_splits)
  then show ?case
  proof
    assume "s' = s" then show ?thesis by simp
  next
    assume "\<exists>t \<in> set (ms r s).
      if length t < length s then s' \<in> set (ms (Star greedy r) t) else s' = t"
    then obtain t where t: "t \<in> set (ms r s)"
      "if length t < length s then s' \<in> set (ms (Star greedy r) t) else s' = t"
      by blast
    from "4.IH"(1) [OF t(1)] obtain p where p: "s = p @ t" by blast
    show ?thesis
    proof (cases "length t < length s")
      case True
      with t(2) have "s' \<in> set (ms (Star greedy r) t)" by simp
      from "4.IH"(2) [OF t(1) True this] obtain q where "t = q @ s'" by blast
      with p show ?thesis by simp
    next
      case False
      with t(2) p show ?thesis by auto
    qed
  qed
next
  case (5 greedy r s)
  then show ?case by (auto split: if_splits)
next
  case (6 r s)
  then show ?case by simp
next
  case (7 s)
  then show ?case by simp
next
  case (8 r rs s)
  from "8.prems" obtain t where t: "t \<in> set (ms r s)" "s' \<in> set (ms (Seq rs) t)" by auto
  from "8.IH"(1) [OF t(1)] obtain p where p: "s = p @ t" by blast
  from "8.IH"(2) [OF t] obtain q where "t = q @ s'" by blast
  with p show ?case by simp
next
  case (9 s)
  then show ?case by simp
next
  case (10 r rs s)
  then show ?case by auto
qed

lemma ci_eq_Nil [simp]: "ci_eq [] w = (w = [])" "ci_eq m [] = (m = [])"
  by (auto simp: ci_eq_def)

lemma ci_eq_Cons: "ci_eq m (c # w) = (\<exists>x m'. m = x # m' \<and> lower x = lower c \<and> ci_eq m' w)"
  by (cases m) (auto simp: ci_eq_def)


lemma star_single_Nil:
  assumes "\<And>s. ms r s = (case s of [] \<Rightarrow> [] | x # xs \<Rightarrow> if P x then [xs] else [])"
  shows "ms (Star g r) [] = [[]]"
  by (subst ms.simps(4)) (simp add: assms)

lemma star_single_Cons:
  assumes "\<And>s. ms r s = (case s of [] \<Rightarrow> [] | x # xs \<Rightarrow> if P x then [xs] else [])"
  shows "ms (Star g r) (x # xs) =
     (if P x then (if g then ms (Star g r) xs @ [x # xs] else (x # xs) # ms (Star g r) xs)
      else [x # xs])"
  by (subst ms.simps(4)) (simp add: assms)

lemma star_single_set:
  assumes "\<And>s. ms r s = (case s of [] \<Rightarrow> [] | x # xs \<Rightarrow> if P x then [xs] else [])"
  shows "(s' \<in> set (ms (Star g r) s)) = (\<exists>p. s = p @ s' \<and> (\<forall>c \<in> set p. P c))"
proof (induction s)
  case Nil
  then show ?case by (auto simp: star_single_Nil [OF assms])
next
  case (Cons x xs)
  show ?case
  proof (cases "P x")
    case False
    then show ?thesis
      by (auto simp: star_single_Cons [OF assms] Cons_eq_append_conv)
  next
    case True
    have "(s' \<in> set (ms (Star g r) (x # xs))) = (s' = x # xs \<or> s' \<in> set (ms (Star g r) xs))"
      using True by (auto simp: star_single_Cons [OF assms])
    also have "\<dots> = (s' = x # xs \<or> (\<exists>p. xs = p @ s' \<and> (\<forall>c \<in> set p. P c)))"
      by (simp add: Cons.IH)
    also have "\<dots> = (\<exists>p. x # xs = p @ s' \<and> (\<forall>c \<in> set p. P c))"
      using True by (auto simp: Cons_eq_append_conv)
    finally show ?thesis .
  qed
qed

lemma ms_lits_set: "(s' \<in> set (ms (lits w) s)) = (\<exists>m. s = m @ s' \<and> ci_eq m w)"
proof (induction w arbitrary: s)
  case Nil
  then show ?case by (auto simp: lits_def)
next
  case (Cons c w)
  have "(s' \<in> set (ms (lits (c # w)) s))
      = (\<exists>x xs. s = x # xs \<and> lower x = lower c \<and> s' \<in> set (ms (lits w) xs))"
    by (cases s) (auto simp: lits_def)
  also have "\<dots> = (\<exists>x xs m. s = x # xs \<and> lower x = lower c \<and> xs = m @ s' \<and> ci_eq m w)"
    by (simp add: Cons.IH)
  also have "\<dots> = (\<exists>m. s = m @ s' \<and> ci_eq m (c # w))"
    by (auto simp: ci_eq_Cons)
  finally show ?case .
qed

lemma ms_Branch_map_set:
  "(s' \<in> set (ms (Branch (map f ws)) s)) = (\<exists>w \<in> set ws. s' \<in> set (ms (f w) s))"
  by (induction ws) auto

lemma ms_word_branch_set:
  "(s' \<in> set (ms (word_branch ws) s)) = (\<exists>m. s = m @ s' \<and> (\<exists>w \<in> set (alts ws). ci_eq m w))"
proof (cases ws)
  case Nil
  then show ?thesis by (auto simp: word_branch_def alts_def)
next
  case (Cons w vs)
  show ?thesis
  proof (cases vs)
    case Nil
    with Cons show ?thesis by (simp add: word_branch_def alts_def ms_lits_set)
  next
    case (Cons v us)
    with \<open>ws = w # vs\<close> have "word_branch ws = Branch (map lits ws)" "alts ws = ws"
      by (simp_all add: word_branch_def alts_def)
    then show ?thesis by (auto simp: ms_Branch_map_set ms_lits_set)
  qed
qed

lemma ms_In: "ms (In b cs) s = (case s of [] \<Rightarrow> [] | x # xs \<Rightarrow> if in_set b cs x then [xs] else [])"
  by simp



lemma ms_Seq_Cons_set:
  "(s' \<in> set (ms (Seq (r # rs)) s)) = (\<exists>t \<in> set (ms r s). s' \<in> set (ms (Seq rs) t))"
  by simp

lemma ms_Seq_Nil_set: "(s' \<in> set (ms (Seq []) s)) = (s' = s)"
  by auto

lemma ms_SeqI:
  "t \<in> set (ms r s) \<Longrightarrow> s' \<in> set (ms (Seq rs) t) \<Longrightarrow> s' \<in> set (ms (Seq (r # rs)) s)"
  by auto

lemma ms_Seq1I: "s' \<in> set (ms r s) \<Longrightarrow> s' \<in> set (ms (Seq [r]) s)"
  by auto

lemma ms_GroupI: "s' \<in> set (ms r s) \<Longrightarrow> s' \<in> set (ms (Group r) s)"
  by simp


lemma inside_brackets_set:
  "(s' \<in> set (ms (inside_brackets_re ws) s)) =
     (\<exists>x p1 m p2 y. s = x # p1 @ m @ p2 @ y # s' \<and> x \<in> set ''([''
        \<and> (\<forall>c \<in> set p1. c \<notin> set '')]'')
        \<and> (\<exists>w \<in> set (alts ws). ci_eq m w)
        \<and> (\<forall>c \<in> set p2. c \<notin> set '')]'')
        \<and> y \<in> set '')]'')"
  (is "?L = ?R")
proof
  assume ?L
  then obtain t1 t2 t3 t4 where
    t1: "t1 \<in> set (ms (In False ''(['') s)"
    and t2: "t2 \<in> set (ms (Star False (In True '')]'')) t1)"
    and t3: "t3 \<in> set (ms (word_branch ws) t2)"
    and t4: "t4 \<in> set (ms (Star False (In True '')]'')) t3)"
    and t5: "s' \<in> set (ms (In False '')]'') t4)"
    by (auto simp: inside_brackets_re_def simp del: ms.simps(3))
  from t1 obtain x where x: "s = x # t1" "x \<in> set ''([''"
    by (cases s) (auto split: if_splits)
  from t2 obtain p1 where p1: "t1 = p1 @ t2" "\<forall>c \<in> set p1. c \<notin> set '')]''"
    unfolding star_single_set [OF ms_In] by auto
  from t3 obtain m where m: "t2 = m @ t3" "\<exists>w \<in> set (alts ws). ci_eq m w"
    unfolding ms_word_branch_set by blast
  from t4 obtain p2 where p2: "t3 = p2 @ t4" "\<forall>c \<in> set p2. c \<notin> set '')]''"
    unfolding star_single_set [OF ms_In] by auto
  from t5 obtain y where y: "t4 = y # s'" "y \<in> set '')]''"
    by (cases t4) (auto split: if_splits)
  from x p1 m p2 y show ?R by blast
next
  assume ?R
  then obtain x p1 m p2 y where s: "s = x # p1 @ m @ p2 @ y # s'" and x: "x \<in> set ''([''"
    and p1: "\<forall>c \<in> set p1. c \<notin> set '')]''" and m: "\<exists>w \<in> set (alts ws). ci_eq m w"
    and p2: "\<forall>c \<in> set p2. c \<notin> set '')]''" and y: "y \<in> set '')]''"
    by blast
  have 1: "p1 @ m @ p2 @ y # s' \<in> set (ms (In False ''(['') s)"
    using s x by simp
  have 2: "m @ p2 @ y # s' \<in> set (ms (Star False (In True '')]'')) (p1 @ m @ p2 @ y # s'))"
    unfolding star_single_set [OF ms_In] using p1 by auto
  have 3: "p2 @ y # s' \<in> set (ms (word_branch ws) (m @ p2 @ y # s'))"
    unfolding ms_word_branch_set using m by blast
  have 4: "y # s' \<in> set (ms (Star False (In True '')]'')) (p2 @ y # s'))"
    unfolding star_single_set [OF ms_In] using p2 by auto
  have 5: "s' \<in> set (ms (In False '')]'') (y # s'))"
    using y by simp
  show ?L
    unfolding inside_brackets_re_def
    by (rule ms_Seq1I [OF ms_GroupI [OF ms_SeqI [OF 1 ms_SeqI [OF 2
          ms_SeqI [OF ms_GroupI [OF 3] ms_SeqI [OF 4 ms_Seq1I [OF 5]]]]]]])
qed

lemma sub_empty_Cons:
  "sub_empty r (c # cs) =
     (case first_match r (c # cs) of Some s' \<Rightarrow> sub_empty r s' | None \<Rightarrow> c # sub_empty r cs)"
  by (simp add: first_match_def sub_empty.simps(2))

lemma first_match_suffix: "first_match r s = Some s' \<Longrightarrow> \<exists>p. p \<noteq> [] \<and> s = p @ s'"
proof -
  assume "first_match r s = Some s'"
  then have "s' \<in> set (ms r s)" "length s' < length s"
    by (auto simp: first_match_def find_Some_iff)
  then show ?thesis using ms_suffix [of s' r s] by auto
qed


lemma set_sub_empty: "set (sub_empty r s) \<subseteq> set s"
proof (induction s rule: length_induct)
  case (1 s)
  show ?case
  proof (cases s)
    case Nil
    then show ?thesis by simp
  next
    case (Cons c cs)
    show ?thesis
    proof (cases "first_match r (c # cs)")
      case None
      with 1 Cons show ?thesis by (auto simp: sub_empty_Cons)
    next
      case (Some s')
      from first_match_suffix [OF Some] obtain p where p: "p \<noteq> []" "c # cs = p @ s'" by blast
      then have "length s' < length s" using Cons by (metis append_eq_conv_conj length_drop diff_less length_greater_0_conv length_Cons zero_less_Suc)
      with 1 have "set (sub_empty r s') \<subseteq> set s'" by blast
      also have "set s' \<subseteq> set s" using p Cons by (metis set_append Un_upper2)
      finally show ?thesis using Some Cons by (simp add: sub_empty_Cons)
    qed
  qed
qed

lemma sub_empty_no_match:
  "(\<And>p t. s = p @ t \<Longrightarrow> first_match r t = None) \<Longrightarrow> sub_empty r s = s"
proof (induction s)
  case Nil
  then show ?case by simp
next
  case (Cons c cs)
  have "first_match r (c # cs) = None" using Cons.prems [of "[]"] by simp
  moreover have "sub_empty r cs = cs"
  proof (rule Cons.IH)
    fix p t assume "cs = p @ t"
    then show "first_match r t = None" using Cons.prems [of "c # p" t] by simp
  qed
  ultimately show ?case by (simp add: sub_empty_Cons)
qed







lemma has_word_Cons: "has_word ws seg \<Longrightarrow> has_word ws (c # seg)"
  unfolding has_word_def by (metis append_Cons)

lemma has_word_append: "has_word ws seg \<Longrightarrow> has_word ws (p @ seg)"
  by (induction p) (auto simp: has_word_Cons)

lemma first_closer_unique:
  assumes "seg @ y # r = seg' @ y' # r'"
    and "\<forall>c \<in> set seg. c \<notin> set '')]''" and "y \<in> set '')]''"
    and "\<forall>c \<in> set seg'. c \<notin> set '')]''" and "y' \<in> set '')]''"
  shows "seg = seg' \<and> y = y' \<and> r = r'"
  using assms
proof (induction seg arbitrary: seg')
  case Nil
  then show ?case by (cases seg') auto
next
  case (Cons c seg)
  then show ?case by (cases seg') auto
qed

lemma plain_not_closer:
  assumes "ci_eq m w" and "\<forall>c \<in> set w. plain_char c"
  shows "\<forall>c \<in> set m. c \<notin> set '')]''"
  using assms
proof (induction w arbitrary: m)
  case Nil
  then show ?case by simp
next
  case (Cons c w)
  from Cons.prems(1) obtain x m' where m: "m = x # m'" "lower x = lower c" "ci_eq m' w"
    by (auto simp: ci_eq_Cons)
  have "plain_char c" using Cons.prems(2) by simp
  then have "c \<noteq> CHR '')''" "c \<noteq> CHR '']''" by (auto simp: plain_char_def)
  then have "x \<noteq> CHR '')''" "x \<noteq> CHR '']''" using m(2) by (metis lower_is_punct(7) lower_punct(7), metis lower_is_punct(8) lower_punct(8))
  moreover have "\<forall>c \<in> set m'. c \<notin> set '')]''" using Cons.IH [OF m(3)] Cons.prems(2) by simp
  ultimately show ?case using m(1) by simp
qed

lemma alts_plain:
  assumes "plain_words ws" and "w \<in> set (alts ws)"
  shows "\<forall>c \<in> set w. plain_char c"
  using assms by (auto simp: plain_words_def alts_def split: if_splits)

lemma inside_brackets_bracket_match:
  assumes "plain_words ws"
  shows "(s' \<in> set (ms (inside_brackets_re ws) s)) = bracket_match ws s s'"
proof
  assume "s' \<in> set (ms (inside_brackets_re ws) s)"
  then have "\<exists>x p1 m p2 y. s = x # p1 @ m @ p2 @ y # s' \<and> x \<in> set ''([''
        \<and> (\<forall>c \<in> set p1. c \<notin> set '')]'')
        \<and> (\<exists>w \<in> set (alts ws). ci_eq m w)
        \<and> (\<forall>c \<in> set p2. c \<notin> set '')]'')
        \<and> y \<in> set '')]''"
    by (simp only: inside_brackets_set)
  then obtain x p1 m p2 y where s: "s = x # p1 @ m @ p2 @ y # s'" and x: "x \<in> set ''([''"
    and p1: "\<forall>c \<in> set p1. c \<notin> set '')]''" and we: "\<exists>w \<in> set (alts ws). ci_eq m w"
    and p2: "\<forall>c \<in> set p2. c \<notin> set '')]''" and y: "y \<in> set '')]''"
    by (elim exE conjE)
  from we obtain w where w: "w \<in> set (alts ws)" "ci_eq m w" ..
  have m: "\<forall>c \<in> set m. c \<notin> set '')]''"
    using plain_not_closer [OF w(2) alts_plain [OF assms w(1)]] .
  have 1: "s = x # (p1 @ m @ p2) @ y # s'" using s by simp
  have 2: "\<forall>c \<in> set (p1 @ m @ p2). c \<notin> set '')]''"
    using p1 m p2 unfolding set_append by (metis Un_iff)
  have 3: "has_word ws (p1 @ m @ p2)" unfolding has_word_def using we by (intro exI conjI) (rule refl)
  show "bracket_match ws s s'" unfolding bracket_match_def
    using 1 x 2 y 3 by (intro exI conjI)
next
  assume "bracket_match ws s s'"
  then obtain x seg y where s: "s = x # seg @ y # s'" and x: "x \<in> set ''([''"
    and seg: "\<forall>c \<in> set seg. c \<notin> set '')]''" and y: "y \<in> set '')]''" and hw: "has_word ws seg"
    unfolding bracket_match_def by (elim exE conjE)
  from hw obtain p1 m p2 where w: "seg = p1 @ m @ p2" "\<exists>w \<in> set (alts ws). ci_eq m w"
    unfolding has_word_def by (elim exE conjE)
  have 1: "s = x # p1 @ m @ p2 @ y # s'" using s w(1) by simp
  have 2: "\<forall>c \<in> set p1. c \<notin> set '')]''"
    using seg unfolding w(1) set_append by (metis Un_iff)
  have 3: "\<forall>c \<in> set p2. c \<notin> set '')]''"
    using seg unfolding w(1) set_append by (metis Un_iff)
  show "s' \<in> set (ms (inside_brackets_re ws) s)"
    unfolding inside_brackets_set using 1 x 2 w(2) 3 y by (intro exI conjI)
qed

lemma bracket_match_unique:
  "bracket_match ws s a \<Longrightarrow> bracket_match ws s b \<Longrightarrow> a = b"
  unfolding bracket_match_def using first_closer_unique by blast

lemma bracket_match_shorter:
  assumes "bracket_match ws s a"
  shows "length a < length s"
proof -
  from assms obtain x seg y where "s = x # seg @ y # a"
    unfolding bracket_match_def by (elim exE conjE)
  then show ?thesis by simp
qed

lemma find_all_equal:
  assumes "xs \<noteq> []" and "\<forall>e \<in> set xs. e = a" and "P a"
  shows "find P xs = Some a"
proof (cases xs)
  case Nil
  with assms(1) show ?thesis by simp
next
  case (Cons x ys)
  with assms(2) have "x = a" by simp
  with Cons assms(3) show ?thesis by simp
qed

lemma first_match_brackets:
  assumes "plain_words ws"
  shows "(first_match (inside_brackets_re ws) s = Some s') = bracket_match ws s s'"
proof
  assume "first_match (inside_brackets_re ws) s = Some s'"
  then have "s' \<in> set (ms (inside_brackets_re ws) s)"
    by (auto simp: first_match_def find_Some_iff)
  then show "bracket_match ws s s'" by (simp add: inside_brackets_bracket_match [OF assms])
next
  assume bm: "bracket_match ws s s'"
  then have "s' \<in> set (ms (inside_brackets_re ws) s)"
    by (simp add: inside_brackets_bracket_match [OF assms])
  then have "ms (inside_brackets_re ws) s \<noteq> []" by auto
  moreover have "\<forall>e \<in> set (ms (inside_brackets_re ws) s). e = s'"
    using bm bracket_match_unique by (auto simp: inside_brackets_bracket_match [OF assms])
  ultimately show "first_match (inside_brackets_re ws) s = Some s'"
    unfolding first_match_def using bracket_match_shorter [OF bm] by (rule find_all_equal)
qed

lemma first_match_brackets_None:
  assumes "plain_words ws"
  shows "(first_match (inside_brackets_re ws) s = None) = (\<forall>s'. \<not> bracket_match ws s s')"
  using first_match_brackets [OF assms, of s] by (cases "first_match (inside_brackets_re ws) s") auto

lemma closer_not_opener: "y \<in> set '')]'' \<Longrightarrow> y \<notin> set ''([''"
  by auto

lemma bracket_match_closer:
  assumes "bracket_match ws s s'"
  shows "\<exists>y \<in> set s. y \<in> set '')]''"
proof -
  from assms obtain x seg y where "s = x # seg @ y # s'" "y \<in> set '')]''"
    unfolding bracket_match_def by (elim exE conjE)
  then show ?thesis by auto
qed

lemma bracket_match_append:
  assumes "bracket_match ws s s'"
  shows "bracket_match ws (s @ r) (s' @ r)"
proof -
  from assms obtain x seg y where s: "s = x # seg @ y # s'" and x: "x \<in> set ''([''"
    and seg: "\<forall>c \<in> set seg. c \<notin> set '')]''" and y: "y \<in> set '')]''" and hw: "has_word ws seg"
    unfolding bracket_match_def by (elim exE conjE)
  have "s @ r = x # seg @ y # (s' @ r)" using s by simp
  then show ?thesis unfolding bracket_match_def using x seg y hw by (intro exI conjI)
qed

lemma bracket_match_Cons:
  assumes "bracket_match ws (c # seg @ y # r) s'"
    and "\<forall>c \<in> set seg. c \<notin> set '')]''" and "y \<in> set '')]''"
  shows "c \<in> set ''(['' \<and> has_word ws seg \<and> s' = r"
proof -
  from assms(1) obtain x seg' y' where s: "c # seg @ y # r = x # seg' @ y' # s'" and x: "x \<in> set ''([''"
    and seg': "\<forall>c \<in> set seg'. c \<notin> set '')]''" and y': "y' \<in> set '')]''" and hw: "has_word ws seg'"
    unfolding bracket_match_def by (elim exE conjE)
  from s have c: "c = x" and eq: "seg @ y # r = seg' @ y' # s'" by simp_all
  from first_closer_unique [OF eq assms(2,3) seg' y'] have "seg = seg'" "r = s'" by simp_all
  with c x hw show ?thesis by simp
qed

lemma sub_brackets_no_closer:
  assumes "plain_words ws" and "\<forall>c \<in> set s. c \<notin> set '')]''"
  shows "sub_empty (inside_brackets_re ws) s = s"
proof (rule sub_empty_no_match)
  fix p t assume "s = p @ t"
  then have "\<forall>c \<in> set t. c \<notin> set '')]''" using assms(2) by simp
  then have "\<forall>s'. \<not> bracket_match ws t s'" using bracket_match_closer by blast
  then show "first_match (inside_brackets_re ws) t = None"
    by (simp add: first_match_brackets_None [OF assms(1)])
qed

lemma sub_brackets_segment:
  assumes "plain_words ws" and "\<forall>c \<in> set seg. c \<notin> set '')]''" and "y \<in> set '')]''"
    and "\<not> has_word ws seg"
  shows "sub_empty (inside_brackets_re ws) (seg @ y # r)
           = seg @ y # sub_empty (inside_brackets_re ws) r"
  using assms(2,4)
proof (induction seg)
  case Nil
  have "\<forall>s'. \<not> bracket_match ws (y # r) s'"
    unfolding bracket_match_def using closer_not_opener [OF assms(3)] by simp
  then have "first_match (inside_brackets_re ws) (y # r) = None"
    by (simp add: first_match_brackets_None [OF assms(1)])
  then show ?case by (simp add: sub_empty_Cons)
next
  case (Cons z seg)
  have nc: "\<forall>c \<in> set seg. c \<notin> set '')]''" using Cons.prems(1) by simp
  have nw: "\<not> has_word ws seg" using Cons.prems(2) has_word_Cons by blast
  have "\<forall>s'. \<not> bracket_match ws (z # seg @ y # r) s'"
    using bracket_match_Cons [OF _ nc assms(3)] nw by blast
  then have "first_match (inside_brackets_re ws) (z # seg @ y # r) = None"
    by (simp add: first_match_brackets_None [OF assms(1)])
  then show ?case using Cons.IH [OF nc nw] by (simp add: sub_empty_Cons)
qed

lemma quiet_sub_brackets:
  assumes "plain_words ws"
  shows "sub_empty (inside_brackets_re ws) s = p @ u \<Longrightarrow> \<not> bracket_match ws u s'"
proof (induction s arbitrary: p u s' rule: length_induct)
  case (1 s)
  let ?r = "inside_brackets_re ws"
  show ?case
  proof (cases s)
    case Nil
    with "1.prems" have "u = []" by simp
    then show ?thesis unfolding bracket_match_def by simp
  next
    case (Cons c cs)
    show ?thesis
    proof (cases "first_match ?r (c # cs)")
      case (Some t)
      from first_match_suffix [OF Some] obtain q where q: "q \<noteq> []" "c # cs = q @ t" by blast
      from q(2) have "length (c # cs) = length q + length t" by (metis length_append)
      with q(1) have "length t < length s" using Cons by simp
      moreover have "sub_empty ?r t = p @ u" using "1.prems" Cons Some by (simp add: sub_empty_Cons)
      ultimately show ?thesis using "1.IH" by blast
    next
      case None
      then have sub: "c # sub_empty ?r cs = p @ u" using "1.prems" Cons by (simp add: sub_empty_Cons)
      have len: "length cs < length s" using Cons by simp
      show ?thesis
      proof (cases p)
        case (Cons c' p')
        with sub have "sub_empty ?r cs = p' @ u" by simp
        with "1.IH" len show ?thesis by blast
      next
        case Nil
        with sub have u: "u = c # sub_empty ?r cs" by simp
        show ?thesis
        proof
          assume "bracket_match ws u s'"
          then obtain x seg y where s: "u = x # seg @ y # s'" and x: "x \<in> set ''([''"
            and seg: "\<forall>c \<in> set seg. c \<notin> set '')]''" and y: "y \<in> set '')]''"
            and hw: "has_word ws seg"
            unfolding bracket_match_def by (elim exE conjE)
          from s u have cx: "c = x" and subcs: "sub_empty ?r cs = seg @ y # s'" by simp_all
          have nomatch: "\<not> bracket_match ws (c # cs) t" for t
            using None first_match_brackets_None [OF assms, of "c # cs"] by simp
          show False
          proof (cases "\<exists>d \<in> set cs. d \<in> set '')]''")
            case False
            then have "sub_empty ?r cs = cs" using sub_brackets_no_closer [OF assms] by blast
            with subcs have "y \<in> set cs" by simp
            with False y show False by blast
          next
            case True
            from split_list_first_prop [OF True] obtain seg' y' r' where
              cs: "cs = seg' @ y' # r'" and y': "y' \<in> set '')]''"
              and seg': "\<forall>c \<in> set seg'. c \<notin> set '')]''"
              by blast
            show False
            proof (cases "has_word ws seg'")
              case True
              have "c # cs = x # seg' @ y' # r'" using cs cx by simp
              then have "bracket_match ws (c # cs) r'"
                unfolding bracket_match_def using x seg' y' True by (intro exI conjI)
              with nomatch show False by blast
            next
              case False
              from sub_brackets_segment [OF assms seg' y' False, of r'] cs subcs
              have "seg @ y # s' = seg' @ y' # sub_empty ?r r'" by simp
              from first_closer_unique [OF this seg y seg' y'] have "seg = seg'" by simp
              with hw False show False by simp
            qed
          qed
        qed
      qed
    qed
  qed
qed

lemma sub_brackets_idem:
  assumes "plain_words ws"
  shows "sub_empty (inside_brackets_re ws) (sub_empty (inside_brackets_re ws) s)
           = sub_empty (inside_brackets_re ws) s"
proof (rule sub_empty_no_match)
  fix p t assume "sub_empty (inside_brackets_re ws) s = p @ t"
  then have "\<forall>s'. \<not> bracket_match ws t s'" using quiet_sub_brackets [OF assms] by blast
  then show "first_match (inside_brackets_re ws) t = None"
    by (simp add: first_match_brackets_None [OF assms])
qed

lemma bar_plain_simps [simp]:
  "bar_plain []" "bar_plain (c # t) = ((plain_char c \<or> c = CHR ''|'') \<and> bar_plain t)"
  "bar_plain (s @ t) = (bar_plain s \<and> bar_plain t)"
  by (auto simp: bar_plain_def)


















end
